theory Spec2Isabelle
  imports Main
begin

section \<open>Hierarchical agents: data model\<close>

text \<open>
  The Python objects the supervisor handles. A routing label is whatever the LLM response
  carries under \<open>next\<close>: a string in the intended case, but nothing in the source
  restricts it, so other Python values are kept apart.
\<close>

datatype pyval = PStr string | PInt int | PNone

datatype py_error =
    IndexError
  | FileNotFoundError
  | ValueError string
  | AttributeError string
  | LLMError string
  | GraphRecursionError

datatype role = System | Human | AI

record message =
  role :: role
  content :: string
  name :: "string option"

text \<open>\<open>class State(MessagesState)\<close>: the message list and the \<open>next\<close> field, which is
  absent until a supervisor has written it.\<close>

record state =
  messages :: "message list"
  next_v :: "pyval option"

text \<open>The \<open>update\<close> dictionary of a \<open>Command\<close>: the messages to add and, when the key is
  present, the new value of \<open>next\<close>.\<close>

record state_update =
  upd_messages :: "message list"
  upd_next :: "pyval option"

record command =
  goto :: pyval
  update :: state_update

text \<open>Modelled from the spec: the constant \<open>END\<close> is imported from the graph library,
  which is not under src/. It is the terminal sentinel (TERMINATE) of a graph, the string
  \<open>__end__\<close>, and differs from the label \<open>FINISH\<close> that the LLM is asked to answer.\<close>

definition END :: string where
  "END = ''__end__''"

definition HumanMessage :: "string \<Rightarrow> string \<Rightarrow> message" where
  "HumanMessage c n = \<lparr>role = Human, content = c, name = Some n\<rparr>"

section \<open>Supervisor node (supervisor.py)\<close>

text \<open>
  What \<open>llm.with_structured_output(Router).invoke(messages)\<close> can hand back: a dict, or
  an object whose attribute \<open>next\<close> has a value, is missing, or raises when read.
\<close>

datatype attr = AttrValue pyval | AttrMissing | AttrRaises

datatype response = RDict "string \<Rightarrow> pyval option" | RObj attr

definition options :: "string list \<Rightarrow> string list" where
  "options members = ''FINISH'' # members"

text \<open>The f-string formats the roster with Python's \<open>repr\<close> of a list, a builtin taken
  here as the parameter \<open>repr\<close>.\<close>

definition system_prompt :: "(string list \<Rightarrow> string) \<Rightarrow> string list \<Rightarrow> string" where
  "system_prompt repr members =
     ''You are a supervisor tasked with managing a conversation between the''
     @ '' following workers: '' @ repr members @ ''. Given the following user request,''
     @ '' respond with the worker to act next. Each worker will perform a''
     @ '' task and respond with their results and status. When finished,''
     @ '' respond with FINISH.''"

text \<open>The \<open>try\<close> block: \<open>response.get('next', "FINISH")\<close> for a dict,
  \<open>getattr(response, 'next', "FINISH")\<close> otherwise, and \<open>"FINISH"\<close> when that raises.\<close>

definition response_next :: "response \<Rightarrow> pyval" where
  "response_next response =
     (case response of
        RDict d \<Rightarrow> (case d ''next'' of Some v \<Rightarrow> v | None \<Rightarrow> PStr ''FINISH'')
      | RObj a \<Rightarrow>
          (case a of
             AttrValue v \<Rightarrow> v
           | AttrMissing \<Rightarrow> PStr ''FINISH''
           | AttrRaises \<Rightarrow> PStr ''FINISH''))"

text \<open>The node itself. The LLM call stands outside the \<open>try\<close> block, so an exception it
  raises leaves the node.\<close>

definition supervisor_node ::
  "(string list \<Rightarrow> string) \<Rightarrow> (message list \<Rightarrow> py_error + response) \<Rightarrow> string list
     \<Rightarrow> state \<Rightarrow> py_error + command" where
  "supervisor_node repr llm members st =
     (let msgs = \<lparr>role = System, content = system_prompt repr members, name = None\<rparr>
                   # messages st
      in case llm msgs of
           Inl e \<Rightarrow> Inl e
         | Inr response \<Rightarrow>
             (let goto0 = response_next response;
                  goto1 = (if goto0 = PStr ''FINISH'' then PStr END else goto0)
              in Inr \<lparr>goto = goto1,
                      update = \<lparr>upd_messages = [], upd_next = Some goto1\<rparr>\<rparr>))"

text \<open>Test doubles: an LLM that answers every prompt with the same response, one that
  raises, and a \<open>repr\<close> for rosters that is never looked at.\<close>

definition llm_const :: "response \<Rightarrow> message list \<Rightarrow> py_error + response" where
  "llm_const r msgs = Inr r"

definition llm_raises :: "message list \<Rightarrow> py_error + response" where
  "llm_raises msgs = Inl (LLMError ''OutputParserException'')"

definition repr_stub :: "string list \<Rightarrow> string" where
  "repr_stub members = ''[...]''"

definition state0 :: state where
  "state0 = \<lparr>messages = [\<lparr>role = Human, content = ''hello'', name = None\<rparr>], next_v = None\<rparr>"

text \<open>The valid set of a roster: its members and the terminal sentinel.\<close>

definition valid_targets :: "string list \<Rightarrow> pyval set" where
  "valid_targets members = PStr ` (set members \<union> {END})"

section \<open>Worker and team nodes (research_team.py, writing_team.py, hierarchical_system.py)\<close>

text \<open>Every worker node and both team nodes end alike: the content of the last message of
  the result (\<open>result["messages"][-1].content\<close>, an IndexError on an empty list) becomes
  one \<open>HumanMessage\<close> tagged with the node's name, and control goes back to the
  supervisor.\<close>

definition reply_command :: "string \<Rightarrow> message list \<Rightarrow> py_error + command" where
  "reply_command nm result =
     (case result of
        [] \<Rightarrow> Inl IndexError
      | _ # _ \<Rightarrow>
          Inr \<lparr>goto = PStr ''supervisor'',
                update = \<lparr>upd_messages = [HumanMessage (content (last result)) nm],
                           upd_next = None\<rparr>\<rparr>)"

text \<open>A worker invokes its agent on the whole state. The agent (a ReAct agent of the
  library) is a parameter: it returns the messages of its final state, or raises.\<close>

definition worker_node ::
  "string \<Rightarrow> (state \<Rightarrow> py_error + message list) \<Rightarrow> state \<Rightarrow> py_error + command" where
  "worker_node nm agent st =
     (case agent st of Inl e \<Rightarrow> Inl e | Inr result \<Rightarrow> reply_command nm result)"

definition search_node :: "(state \<Rightarrow> py_error + message list) \<Rightarrow> state \<Rightarrow> py_error + command" where
  "search_node search_agent = worker_node ''search'' search_agent"

definition web_scraper_node :: "(state \<Rightarrow> py_error + message list) \<Rightarrow> state \<Rightarrow> py_error + command" where
  "web_scraper_node web_scraper_agent = worker_node ''web_scraper'' web_scraper_agent"

definition doc_writing_node :: "(state \<Rightarrow> py_error + message list) \<Rightarrow> state \<Rightarrow> py_error + command" where
  "doc_writing_node doc_writer_agent = worker_node ''doc_writer'' doc_writer_agent"

definition note_taking_node :: "(state \<Rightarrow> py_error + message list) \<Rightarrow> state \<Rightarrow> py_error + command" where
  "note_taking_node note_taking_agent = worker_node ''note_taker'' note_taking_agent"

definition chart_generating_node :: "(state \<Rightarrow> py_error + message list) \<Rightarrow> state \<Rightarrow> py_error + command" where
  "chart_generating_node chart_generating_agent = worker_node ''chart_generator'' chart_generating_agent"

text \<open>The slice \<open>xs[-1:]\<close>: the last element as a list, the empty list for an empty one.\<close>

definition last_slice :: "'a list \<Rightarrow> 'a list" where
  "last_slice xs = drop (length xs - 1) xs"

text \<open>A team's \<open>invoke\<close> takes a message list and returns the messages of the team's final
  state, or raises; the two teams are parameters of the top-level nodes.\<close>

definition call_research_team ::
  "(message list \<Rightarrow> py_error + message list) \<Rightarrow> state \<Rightarrow> py_error + command" where
  "call_research_team research_team st =
     (case research_team (last_slice (messages st)) of
        Inl e \<Rightarrow> Inl e
      | Inr response \<Rightarrow> reply_command ''research_team'' response)"

definition call_writer_team ::
  "(message list \<Rightarrow> py_error + message list) \<Rightarrow> state \<Rightarrow> py_error + command" where
  "call_writer_team writing_team st =
     (case writing_team (last_slice (messages st)) of
        Inl e \<Rightarrow> Inl e
      | Inr response \<Rightarrow> reply_command ''writer_team'' response)"

text \<open>Modelled from the spec: how the graph library folds a node's update into the state
  is not under src/. The spec has the conversation state "mutated by appending one message
  per node visit; \<open>next\<close> overwritten each supervisor decision": the messages of an update
  are appended, and \<open>next\<close> is replaced when the update carries it.\<close>

definition apply_update :: "state \<Rightarrow> state_update \<Rightarrow> state" where
  "apply_update st u =
     \<lparr>messages = messages st @ upd_messages u,
      next_v = (case upd_next u of None \<Rightarrow> next_v st | Some v \<Rightarrow> Some v)\<rparr>"


text \<open>A team double that answers with everything it was given, in one message.\<close>

definition team_repeat_all :: "message list \<Rightarrow> py_error + message list" where
  "team_repeat_all msgs = Inr [\<lparr>role = AI, content = concat (map content msgs), name = None\<rparr>]"

definition state_two_messages :: state where
  "state_two_messages =
     \<lparr>messages = [\<lparr>role = Human, content = ''first'', name = None\<rparr>,
                  \<lparr>role = Human, content = ''second'', name = Some ''research_team''\<rparr>],
      next_v = Some (PStr ''writer_team'')\<rparr>"

definition agent_echo :: "string \<Rightarrow> state \<Rightarrow> py_error + message list" where
  "agent_echo reply st = Inr (messages st @ [\<lparr>role = AI, content = reply, name = None\<rparr>])"

section \<open>Configuration and construction (config.py, hierarchical_system.py)\<close>

record config =
  openai_api_key :: string
  tavily_api_key :: string
  groq_api_key :: string
  default_model :: string
  temperature :: int
  recursion_limit :: int

definition getenv :: "(string \<Rightarrow> string option) \<Rightarrow> string \<Rightarrow> string \<Rightarrow> string" where
  "getenv env k d = (case env k of None \<Rightarrow> d | Some v \<Rightarrow> v)"

text \<open>\<open>Config.__init__\<close>, on the environment as \<open>load_dotenv()\<close> leaves it.\<close>

definition Config_init :: "(string \<Rightarrow> string option) \<Rightarrow> config" where
  "Config_init env =
     \<lparr>openai_api_key = getenv env ''OPENAI_API_KEY'' [],
      tavily_api_key = getenv env ''TAVILY_API_KEY'' [],
      groq_api_key = getenv env ''GROQ_API_KEY'' [],
      default_model = ''llama-3.3-70b-versatile'',
      temperature = 0,
      recursion_limit = 150\<rparr>"

text \<open>\<open>all(key.get_secret_value() for key in required_keys)\<close>: a string is true when it is
  not empty.\<close>

definition validate :: "config \<Rightarrow> bool" where
  "validate c = list_all (\<lambda>key. key \<noteq> []) [groq_api_key c, tavily_api_key c]"

definition get_groq_key :: "config \<Rightarrow> string option" where
  "get_groq_key c = (if groq_api_key c \<noteq> [] then Some (groq_api_key c) else None)"

definition get_tavily_key :: "config \<Rightarrow> string option" where
  "get_tavily_key c = (if tavily_api_key c \<noteq> [] then Some (tavily_api_key c) else None)"

text \<open>What the constructor builds, in order. Each event is a call into a library: the LLM
  client, the tools manager (with its search client), an agent, a supervisor node, a
  compiled graph.\<close>

datatype build_event =
    BuildChatGroq string int "string option"
  | BuildToolsManager "string option"
  | BuildReactAgent string
  | BuildSupervisor "string list"
  | BuildGraph "string list"

text \<open>The attributes a \<open>ToolsManager\<close> has (tools.py): the four set by \<open>__init__\<close> and the
  methods of the class. Reading any other name raises AttributeError.\<close>

definition ToolsManager_attrs :: "string list" where
  "ToolsManager_attrs =
     [''tavily'', ''_temp_dir'', ''working_dir'', ''repl'',
      ''get_research_tools'', ''get_writing_tools'', ''get_note_taking_tools'',
      ''get_chart_tools'', ''_create_scrap_web_tool'', ''_create_outline_tool'',
      ''_create_read_document_tool'', ''_create_write_document_tool'',
      ''_create_edit_document_tool'', ''_create_python_repl_tool'']"

definition ToolsManager_getattr :: "string \<Rightarrow> py_error + string" where
  "ToolsManager_getattr nm =
     (if nm \<in> set ToolsManager_attrs then Inr nm else Inl (AttributeError nm))"

text \<open>\<open>ResearchTeam.__init__\<close> reads \<open>tools_manager.tavily\<close> for the search agent, then
  \<open>tools_manager.scrap_web\<close> for the scraper agent.\<close>

definition ResearchTeam_init :: "build_event list \<times> (py_error + unit)" where
  "ResearchTeam_init =
     (case ToolsManager_getattr ''tavily'' of
        Inl e \<Rightarrow> ([], Inl e)
      | Inr _ \<Rightarrow>
          (case ToolsManager_getattr ''scrap_web'' of
             Inl e \<Rightarrow> ([BuildReactAgent ''search''], Inl e)
           | Inr _ \<Rightarrow>
               ([BuildReactAgent ''search'', BuildReactAgent ''web_scraper'',
                 BuildSupervisor [''search'', ''web_scraper''],
                 BuildGraph [''supervisor'', ''search'', ''web_scraper'']], Inr ())))"

definition WritingTeam_init :: "build_event list \<times> (py_error + unit)" where
  "WritingTeam_init =
     (case ToolsManager_getattr ''get_writing_tools'' of
        Inl e \<Rightarrow> ([], Inl e)
      | Inr _ \<Rightarrow>
          (case ToolsManager_getattr ''get_note_taking_tools'' of
             Inl e \<Rightarrow> ([BuildReactAgent ''doc_writer''], Inl e)
           | Inr _ \<Rightarrow>
               (case ToolsManager_getattr ''get_chart_tools'' of
                  Inl e \<Rightarrow> ([BuildReactAgent ''doc_writer'', BuildReactAgent ''note_taker''], Inl e)
                | Inr _ \<Rightarrow>
                    ([BuildReactAgent ''doc_writer'', BuildReactAgent ''note_taker'',
                      BuildReactAgent ''chart_generator'',
                      BuildSupervisor [''doc_writer'', ''note_taker'', ''chart_generator''],
                      BuildGraph [''supervisor'', ''doc_writer'', ''note_taker'',
                                  ''chart_generator'']], Inr ()))))"

text \<open>\<open>HierarchicalSystem.__init__\<close>: the configuration given or a fresh one, the
  validation, then the builds in the order of the source. The result is the list of builds
  made and either the exception raised or the configuration the system holds.\<close>

definition HierarchicalSystem_init ::
  "config option \<Rightarrow> (string \<Rightarrow> string option) \<Rightarrow> build_event list \<times> (py_error + config)" where
  "HierarchicalSystem_init config_arg env =
     (let c = (case config_arg of None \<Rightarrow> Config_init env | Some c' \<Rightarrow> c')
      in if \<not> validate c
         then ([], Inl (ValueError ''Missing required API keys. Please check your .env file.''))
         else
           (let ev1 = [BuildChatGroq (default_model c) (temperature c) (get_groq_key c),
                       BuildToolsManager (get_tavily_key c)]
            in case ResearchTeam_init of
                 (ev2, Inl e) \<Rightarrow> (ev1 @ ev2, Inl e)
               | (ev2, Inr _) \<Rightarrow>
                   (case WritingTeam_init of
                      (ev3, Inl e) \<Rightarrow> (ev1 @ ev2 @ ev3, Inl e)
                    | (ev3, Inr _) \<Rightarrow>
                        (ev1 @ ev2 @ ev3
                           @ [BuildSupervisor [''research_team'', ''writer_team''],
                              BuildGraph [''supervisor'', ''research_team'', ''writer_team'']],
                         Inr c))))"

section \<open>Running the top-level graph (hierarchical_system.py)\<close>

text \<open>Modelled from the spec: the graph engine behind \<open>graph.stream\<close> and \<open>graph.invoke\<close>
  is the graph library's and is not under src/. A run enters at the node the edge from
  START names and executes one node at a time: the node's update is folded into the state
  and control passes to the node its \<open>goto\<close> names. The run completes, with the state it
  has, when the target is the terminal sentinel or names no node of the graph: the spec
  has a malformed routing decision "swallowed and treated as termination". An exception of
  a node leaves the run. The recursion limit is the hard cap of the spec, "a distinct,
  reported failure": one unit is charged for every node execution, the supervisor's and
  the teams' alike (the spec words the bound as supervisor round-trips, each of which is
  two executions), and the run raises GraphRecursionError when a node is due and no unit
  is left. The first component is the sequence of step snapshots that the streaming run
  yields, one for each node execution, with the node that produced it.\<close>

fun graph_loop ::
  "(string \<Rightarrow> (state \<Rightarrow> py_error + command) option) \<Rightarrow> nat \<Rightarrow> pyval \<Rightarrow> state
     \<Rightarrow> (string \<times> state) list \<times> (py_error + state)" where
  "graph_loop nodes 0 target st =
     (case target of
        PStr l \<Rightarrow>
          (if l = END then ([], Inr st)
           else (case nodes l of
                   None \<Rightarrow> ([], Inr st)
                 | Some node \<Rightarrow> ([], Inl GraphRecursionError)))
      | _ \<Rightarrow> ([], Inr st))"
| "graph_loop nodes (Suc n) target st =
     (case target of
        PStr l \<Rightarrow>
          (if l = END then ([], Inr st)
           else (case nodes l of
                   None \<Rightarrow> ([], Inr st)
                 | Some node \<Rightarrow>
                     (case node st of
                        Inl e \<Rightarrow> ([], Inl e)
                      | Inr cmd \<Rightarrow>
                          (let st1 = apply_update st (update cmd);
                               rest = graph_loop nodes n (goto cmd) st1
                           in ((l, st1) # fst rest, snd rest)))))
      | _ \<Rightarrow> ([], Inr st))"

text \<open>\<open>graph.stream\<close>: a recursion limit below 1 is refused before anything runs.\<close>

definition graph_stream ::
  "(string \<Rightarrow> (state \<Rightarrow> py_error + command) option) \<Rightarrow> string \<Rightarrow> int \<Rightarrow> state
     \<Rightarrow> (string \<times> state) list \<times> (py_error + state)" where
  "graph_stream nodes entry limit st =
     (if limit < 1 then ([], Inl (ValueError ''recursion_limit must be at least 1''))
      else graph_loop nodes (nat limit) (PStr entry) st)"











section \<open>Document tools (tools.py)\<close>

text \<open>The working directory is a map from file names to file contents. File names are
  opaque keys: every name can be written, and a name that was never written cannot be
  opened for reading (FileNotFoundError). Files are opened in text mode on a POSIX
  system: writing stores the characters as they are, reading translates \<open>\r\n\<close> and
  \<open>\r\<close> to \<open>\n\<close> (universal newlines).\<close>

type_synonym filesystem = "string \<Rightarrow> string option"

definition LF :: char where
  "LF = CHR 0x0A"

definition CR :: char where
  "CR = CHR 0x0D"

fun universal_newlines :: "string \<Rightarrow> string" where
  "universal_newlines [] = []"
| "universal_newlines [c] = (if c = CR then [LF] else [c])"
| "universal_newlines (c # d # cs) =
     (if c = CR \<and> d = LF then LF # universal_newlines cs
      else if c = CR then LF # universal_newlines (d # cs)
      else c # universal_newlines (d # cs))"

text \<open>Lines with their terminators kept, as \<open>readlines\<close> returns them; \<open>cur\<close> is the
  line being read.\<close>

fun split_keepends :: "string \<Rightarrow> string \<Rightarrow> string list" where
  "split_keepends cur [] = (if cur = [] then [] else [cur])"
| "split_keepends cur (c # cs) =
     (if c = LF then (cur @ [c]) # split_keepends [] cs
      else split_keepends (cur @ [c]) cs)"

definition readlines :: "string \<Rightarrow> string list" where
  "readlines data = split_keepends [] (universal_newlines data)"

text \<open>\<open>sep.join(xs)\<close>.\<close>

fun join :: "string \<Rightarrow> string list \<Rightarrow> string" where
  "join sep [] = []"
| "join sep [x] = x"
| "join sep (x # y # ys) = x @ sep @ join sep (y # ys)"

text \<open>The slice \<open>xs[lo:hi]\<close> with \<open>lo\<close> an integer and \<open>hi\<close> an integer or None: a negative
  index counts from the end, and both are clipped to the list.\<close>

definition clip_index :: "nat \<Rightarrow> int \<Rightarrow> nat" where
  "clip_index n i = (if i < 0 then nat (max 0 (i + int n)) else min (nat i) n)"

definition py_slice :: "'a list \<Rightarrow> int \<Rightarrow> int option \<Rightarrow> 'a list" where
  "py_slice xs lo hi =
     (let n = length xs;
          l = clip_index n lo;
          h = (case hi of None \<Rightarrow> n | Some i \<Rightarrow> clip_index n i)
      in take (h - l) (drop l xs))"

definition read_document :: "filesystem \<Rightarrow> string \<Rightarrow> int option \<Rightarrow> int option \<Rightarrow> py_error + string" where
  "read_document fs file_name start end_arg =
     (case fs file_name of
        None \<Rightarrow> Inl FileNotFoundError
      | Some data \<Rightarrow>
          (let lines = readlines data;
               start' = (case start of None \<Rightarrow> 0 | Some s \<Rightarrow> s)
           in Inr (join [LF] (py_slice lines start' end_arg))))"

definition write_document :: "filesystem \<Rightarrow> string \<Rightarrow> string \<Rightarrow> (py_error + string) \<times> filesystem" where
  "write_document fs content_arg file_name =
     (Inr (''Document saved to '' @ file_name), fs(file_name \<mapsto> content_arg))"

text \<open>\<open>str\<close> of an integer, for the f-string of the error message.\<close>

definition digit_char :: "nat \<Rightarrow> char" where
  "digit_char d = ''0123456789'' ! (d mod 10)"

fun str_nat :: "nat \<Rightarrow> string" where
  "str_nat n = (if n < 10 then [digit_char n] else str_nat (n div 10) @ [digit_char n])"

definition str_int :: "int \<Rightarrow> string" where
  "str_int i = (if i < 0 then CHR ''-'' # str_nat (nat (- i)) else str_nat (nat i))"

text \<open>\<open>lines.insert(i, x)\<close> for an index within the list.\<close>

definition list_insert :: "'a list \<Rightarrow> nat \<Rightarrow> 'a \<Rightarrow> 'a list" where
  "list_insert xs i x = take i xs @ x # drop i xs"

text \<open>The loop over the sorted inserts: each one is checked against the list as the
  earlier ones have left it; the first one out of range stops the loop with its line
  number.\<close>

fun insert_loop :: "string list \<Rightarrow> (int \<times> string) list \<Rightarrow> int + string list" where
  "insert_loop lines [] = Inr lines"
| "insert_loop lines ((line_number, text) # rest) =
     (if 1 \<le> line_number \<and> line_number \<le> int (length lines) + 1
      then insert_loop (list_insert lines (nat (line_number - 1)) (text @ [LF])) rest
      else Inl line_number)"

text \<open>The dict \<open>inserts\<close> is the list of its items, with distinct keys; \<open>sorted\<close> orders
  them by key.\<close>

definition sorted_inserts :: "(int \<times> string) list \<Rightarrow> (int \<times> string) list" where
  "sorted_inserts inserts = sort_key fst inserts"

definition out_of_range_message :: "int \<Rightarrow> string" where
  "out_of_range_message line_number =
     ''Error: Line number '' @ str_int line_number @ '' is out of range.''"

definition edit_document ::
  "filesystem \<Rightarrow> string \<Rightarrow> (int \<times> string) list \<Rightarrow> (py_error + string) \<times> filesystem" where
  "edit_document fs file_name inserts =
     (case fs file_name of
        None \<Rightarrow> (Inl FileNotFoundError, fs)
      | Some data \<Rightarrow>
          (case insert_loop (readlines data) (sorted_inserts inserts) of
             Inl line_number \<Rightarrow> (Inr (out_of_range_message line_number), fs)
           | Inr lines \<Rightarrow>
               (Inr (''Document edited and saved to '' @ file_name),
                fs(file_name \<mapsto> concat lines))))"

text \<open>Writing a document into a working directory and reading it back with the default
  start and end.\<close>

definition write_then_read :: "filesystem \<Rightarrow> string \<Rightarrow> string \<Rightarrow> py_error + string" where
  "write_then_read fs content_arg file_name =
     read_document (snd (write_document fs content_arg file_name)) file_name None None"

section \<open>Properties of the supervisor\<close>

lemma response_next_cases:
  "response_next r = PStr ''FINISH'' \<or> r = RObj (AttrValue (response_next r))
     \<or> (\<exists>d. r = RDict d \<and> d ''next'' = Some (response_next r))"
  by (auto simp: response_next_def split: response.splits attr.splits option.splits)

lemma supervisor_node_raises:
  "llm (\<lparr>role = System, content = system_prompt repr members, name = None\<rparr> # messages st) = Inl e
     \<Longrightarrow> supervisor_node repr llm members st = Inl e"
  by (simp add: supervisor_node_def)

text \<open>
  C1, as stated: whatever the LLM answers, the routing target is a member of the roster or
  the terminal sentinel. It fails on the code: a label that is not in the roster is
  returned as it is. Here the research team's supervisor routes to \<open>bogus\<close>.
\<close>

theorem supervisor_target_counterexample:
  "supervisor_node repr_stub (llm_const (RObj (AttrValue (PStr ''bogus''))))
       [''search'', ''web_scraper''] state0
     = Inr \<lparr>goto = PStr ''bogus'',
             update = \<lparr>upd_messages = [], upd_next = Some (PStr ''bogus'')\<rparr>\<rparr>
   \<and> PStr ''bogus'' \<notin> valid_targets [''search'', ''web_scraper'']"
  by (simp add: supervisor_node_def llm_const_def response_next_def valid_targets_def END_def
      image_iff Let_def)

text \<open>
  C1, amended: for every roster and every response of the LLM, the routing target is the
  terminal sentinel or the label read from the response; it is a member of the roster or
  the terminal sentinel whenever that label is missing or is one of the roster, FINISH and
  the sentinel itself.
\<close>

theorem supervisor_target_valid:
  assumes "supervisor_node repr llm members st = Inr cmd"
    and "llm (\<lparr>role = System, content = system_prompt repr members, name = None\<rparr> # messages st)
           = Inr r"
  shows "(goto cmd = PStr END \<or> goto cmd = response_next r)
       \<and> (response_next r \<in> PStr ` (set members \<union> {''FINISH'', END})
            \<longrightarrow> goto cmd \<in> valid_targets members)"
  using assms
  by (auto simp: supervisor_node_def valid_targets_def Let_def split: if_splits)

theorem supervisor_target_valid_witness:
  "supervisor_node repr_stub (llm_const (RDict [''next'' \<mapsto> PStr ''search'']))
       [''search'', ''web_scraper''] state0
     = Inr \<lparr>goto = PStr ''search'',
             update = \<lparr>upd_messages = [], upd_next = Some (PStr ''search'')\<rparr>\<rparr>
   \<and> PStr ''search'' \<in> valid_targets [''search'', ''web_scraper'']"
  using supervisor_target_valid [where repr = repr_stub
      and llm = "llm_const (RDict [''next'' \<mapsto> PStr ''search''])"
      and members = "[''search'', ''web_scraper'']" and st = state0
      and cmd = "\<lparr>goto = PStr ''search'',
                   update = \<lparr>upd_messages = [], upd_next = Some (PStr ''search'')\<rparr>\<rparr>"
      and r = "RDict [''next'' \<mapsto> PStr ''search'']"]
  by (simp add: supervisor_node_def llm_const_def response_next_def END_def Let_def)

text \<open>
  C2, as stated: a response whose label is outside the roster and FINISH makes the
  supervisor default to the terminal sentinel. It fails on the code: the dict response
  \<open>{"next": "editor"}\<close> is routed to \<open>editor\<close>, which is neither an option of the roster
  nor the sentinel.
\<close>

theorem supervisor_default_counterexample:
  "supervisor_node repr_stub (llm_const (RDict [''next'' \<mapsto> PStr ''editor'']))
       [''search'', ''web_scraper''] state0
     = Inr \<lparr>goto = PStr ''editor'',
             update = \<lparr>upd_messages = [], upd_next = Some (PStr ''editor'')\<rparr>\<rparr>
   \<and> ''editor'' \<notin> set (options [''search'', ''web_scraper''])
   \<and> PStr ''editor'' \<noteq> PStr END"
  by (simp add: supervisor_node_def llm_const_def response_next_def options_def END_def Let_def)

text \<open>
  C2, amended: for every response from which no routing label can be read (a dict without
  the key \<open>next\<close>, an object without the attribute \<open>next\<close>, an object whose attribute
  raises when read), the supervisor node does not raise and routes to the terminal
  sentinel, as if FINISH had been chosen.
\<close>

theorem supervisor_default_missing_label:
  assumes "llm (\<lparr>role = System, content = system_prompt repr members, name = None\<rparr> # messages st)
             = Inr r"
    and "r = RObj AttrMissing \<or> r = RObj AttrRaises \<or> (r = RDict d \<and> d ''next'' = None)"
  shows "supervisor_node repr llm members st
           = Inr \<lparr>goto = PStr END, update = \<lparr>upd_messages = [], upd_next = Some (PStr END)\<rparr>\<rparr>"
  using assms by (auto simp: supervisor_node_def response_next_def Let_def)

theorem supervisor_default_missing_label_witness:
  "supervisor_node repr_stub (llm_const (RDict Map.empty)) [''search'', ''web_scraper''] state0
     = Inr \<lparr>goto = PStr ''__end__'',
             update = \<lparr>upd_messages = [], upd_next = Some (PStr ''__end__'')\<rparr>\<rparr>"
  using supervisor_default_missing_label [where llm = "llm_const (RDict Map.empty)"
      and repr = repr_stub and members = "[''search'', ''web_scraper'']" and st = state0
      and r = "RDict Map.empty" and d = Map.empty]
  by (simp add: llm_const_def END_def)

section \<open>Properties of the conversation state\<close>

lemma last_slice_nonempty: "xs \<noteq> [] \<Longrightarrow> last_slice xs = [last xs]"
  by (cases xs rule: rev_cases) (simp_all add: last_slice_def)

lemma last_slice_empty: "last_slice [] = []"
  by (simp add: last_slice_def)

lemma reply_command_nonempty:
  "result \<noteq> [] \<Longrightarrow> reply_command nm result =
     Inr \<lparr>goto = PStr ''supervisor'',
           update = \<lparr>upd_messages = [HumanMessage (content (last result)) nm],
                      upd_next = None\<rparr>\<rparr>"
  by (cases result) (simp_all add: reply_command_def)

text \<open>
  C8, as stated: when the decision is FINISH, the \<open>next\<close> field records the literal
  FINISH. It fails on the code: the label is replaced by the terminal sentinel before the
  update is built, so \<open>next\<close> records \<open>__end__\<close>.
\<close>

theorem next_field_counterexample:
  "supervisor_node repr_stub (llm_const (RObj (AttrValue (PStr ''FINISH''))))
       [''search'', ''web_scraper''] state0
     = Inr \<lparr>goto = PStr ''__end__'',
             update = \<lparr>upd_messages = [], upd_next = Some (PStr ''__end__'')\<rparr>\<rparr>
   \<and> Some (PStr ''__end__'') \<noteq> Some (PStr ''FINISH'')"
  by (simp add: supervisor_node_def llm_const_def response_next_def END_def Let_def)

text \<open>
  C8, amended: every supervisor decision overwrites the \<open>next\<close> field with the routing
  target and adds no message; the target is the label read from the response, except that
  FINISH is recorded as the terminal sentinel and never as the literal FINISH. Every
  worker-node visit that returns appends exactly one message, tagged with the worker's
  name, and leaves \<open>next\<close> as it was.
\<close>

theorem next_field_and_messages:
  assumes "supervisor_node repr llm members st = Inr cmd"
    and "llm (\<lparr>role = System, content = system_prompt repr members, name = None\<rparr> # messages st)
           = Inr r"
    and "worker_node nm agent st' = Inr wcmd"
  shows "next_v (apply_update st (update cmd)) = Some (goto cmd)
       \<and> goto cmd = (if response_next r = PStr ''FINISH'' then PStr END else response_next r)
       \<and> goto cmd \<noteq> PStr ''FINISH''
       \<and> messages (apply_update st (update cmd)) = messages st
       \<and> (\<exists>c. messages (apply_update st' (update wcmd)) = messages st' @ [HumanMessage c nm])
       \<and> next_v (apply_update st' (update wcmd)) = next_v st'"
  using assms
  by (auto simp: supervisor_node_def worker_node_def reply_command_def apply_update_def Let_def
      END_def split: sum.splits list.splits if_splits)

theorem next_field_and_messages_witness:
  "supervisor_node repr_stub (llm_const (RObj (AttrValue (PStr ''search''))))
       [''search'', ''web_scraper''] state0
     = Inr \<lparr>goto = PStr ''search'',
             update = \<lparr>upd_messages = [], upd_next = Some (PStr ''search'')\<rparr>\<rparr>
   \<and> worker_node ''search'' (agent_echo ''found'') state0
     = Inr \<lparr>goto = PStr ''supervisor'',
             update = \<lparr>upd_messages = [HumanMessage ''found'' ''search''], upd_next = None\<rparr>\<rparr>
   \<and> next_v (apply_update state0 \<lparr>upd_messages = [], upd_next = Some (PStr ''search'')\<rparr>)
     = Some (PStr ''search'')
   \<and> messages (apply_update state0
        \<lparr>upd_messages = [HumanMessage ''found'' ''search''], upd_next = None\<rparr>)
     = messages state0 @ [HumanMessage ''found'' ''search'']"
  using next_field_and_messages [where repr = repr_stub
      and llm = "llm_const (RObj (AttrValue (PStr ''search'')))"
      and members = "[''search'', ''web_scraper'']" and st = state0
      and cmd = "\<lparr>goto = PStr ''search'',
                   update = \<lparr>upd_messages = [], upd_next = Some (PStr ''search'')\<rparr>\<rparr>"
      and r = "RObj (AttrValue (PStr ''search''))"
      and nm = "''search''" and agent = "agent_echo ''found''" and st' = state0
      and wcmd = "\<lparr>goto = PStr ''supervisor'',
                    update = \<lparr>upd_messages = [HumanMessage ''found'' ''search''],
                               upd_next = None\<rparr>\<rparr>"]
  by (simp add: supervisor_node_def llm_const_def response_next_def Let_def worker_node_def
      agent_echo_def reply_command_def state0_def HumanMessage_def apply_update_def)

text \<open>
  C10: for every state with a non-empty message list, \<open>_call_research_team\<close> and
  \<open>_call_writer_team\<close> invoke their team with the one-element list of the last message:
  the command they return is fixed by what the team answers to that list alone. The reply
  is one message, tagged with the team's name, which the update appends.
\<close>

theorem team_sees_last_message_only:
  assumes "messages st \<noteq> []"
    and "research [last (messages st)] = Inr r1" and "r1 \<noteq> []"
    and "writer [last (messages st)] = Inr r2" and "r2 \<noteq> []"
  shows "last_slice (messages st) = [last (messages st)]
       \<and> call_research_team research st
           = Inr \<lparr>goto = PStr ''supervisor'',
                   update = \<lparr>upd_messages = [HumanMessage (content (last r1)) ''research_team''],
                              upd_next = None\<rparr>\<rparr>
       \<and> call_writer_team writer st
           = Inr \<lparr>goto = PStr ''supervisor'',
                   update = \<lparr>upd_messages = [HumanMessage (content (last r2)) ''writer_team''],
                              upd_next = None\<rparr>\<rparr>
       \<and> messages (apply_update st
             \<lparr>upd_messages = [HumanMessage (content (last r1)) ''research_team''],
              upd_next = None\<rparr>)
           = messages st @ [HumanMessage (content (last r1)) ''research_team'']"
  using assms
  by (simp add: call_research_team_def call_writer_team_def last_slice_nonempty
      reply_command_nonempty apply_update_def)

theorem team_sees_last_message_only_witness:
  "call_research_team team_repeat_all state_two_messages
     = Inr \<lparr>goto = PStr ''supervisor'',
             update = \<lparr>upd_messages = [HumanMessage ''second'' ''research_team''],
                        upd_next = None\<rparr>\<rparr>
   \<and> call_writer_team team_repeat_all state_two_messages
     = Inr \<lparr>goto = PStr ''supervisor'',
             update = \<lparr>upd_messages = [HumanMessage ''second'' ''writer_team''],
                        upd_next = None\<rparr>\<rparr>
   \<and> messages (apply_update state_two_messages
        \<lparr>upd_messages = [HumanMessage ''second'' ''research_team''], upd_next = None\<rparr>)
     = messages state_two_messages @ [HumanMessage ''second'' ''research_team'']"
  using team_sees_last_message_only [where st = state_two_messages
      and research = team_repeat_all and writer = team_repeat_all
      and ?r1.0 = "[\<lparr>role = AI, content = ''second'', name = None\<rparr>]"
      and ?r2.0 = "[\<lparr>role = AI, content = ''second'', name = None\<rparr>]"]
  by (simp add: state_two_messages_def team_repeat_all_def)

section \<open>Properties of the construction\<close>

lemma validate_iff: "validate c \<longleftrightarrow> groq_api_key c \<noteq> [] \<and> tavily_api_key c \<noteq> []"
  by (simp add: validate_def)

lemma ResearchTeam_init_raises:
  "ResearchTeam_init = ([BuildReactAgent ''search''], Inl (AttributeError ''scrap_web''))"
  by (simp add: ResearchTeam_init_def ToolsManager_getattr_def ToolsManager_attrs_def)

lemma init_with_both_keys:
  "groq_api_key c \<noteq> [] \<Longrightarrow> tavily_api_key c \<noteq> [] \<Longrightarrow>
   HierarchicalSystem_init (Some c) env
     = ([BuildChatGroq (default_model c) (temperature c) (Some (groq_api_key c)),
         BuildToolsManager (Some (tavily_api_key c)), BuildReactAgent ''search''],
        Inl (AttributeError ''scrap_web''))"
  by (simp add: HierarchicalSystem_init_def validate_def ResearchTeam_init_raises
      get_groq_key_def get_tavily_key_def)

text \<open>
  C7: constructing the system with an empty Tavily key or an empty Groq key raises the
  ValueError of the validation with nothing built: no LLM client, no tools manager, no
  team, no graph. So a construction can only succeed with both keys non-empty.
\<close>

theorem init_rejects_empty_keys:
  assumes "c = (case config_arg of None \<Rightarrow> Config_init env | Some c' \<Rightarrow> c')"
    and "tavily_api_key c = [] \<or> groq_api_key c = []"
  shows "HierarchicalSystem_init config_arg env
           = ([], Inl (ValueError ''Missing required API keys. Please check your .env file.''))"
  using assms by (auto simp: HierarchicalSystem_init_def validate_def Let_def)

theorem init_rejects_empty_keys_witness:
  "HierarchicalSystem_init None [''GROQ_API_KEY'' \<mapsto> ''gsk_1'']
     = ([], Inl (ValueError ''Missing required API keys. Please check your .env file.''))"
  using init_rejects_empty_keys [where c = "Config_init [''GROQ_API_KEY'' \<mapsto> ''gsk_1'']"
      and config_arg = None and env = "[''GROQ_API_KEY'' \<mapsto> ''gsk_1'']"]
  by (simp add: Config_init_def getenv_def)

section \<open>Properties of a run\<close>

lemma graph_stream_refuses_low_limit:
  "limit < 1 \<Longrightarrow> graph_stream nodes entry limit st
     = ([], Inl (ValueError ''recursion_limit must be at least 1''))"
  by (simp add: graph_stream_def)






section \<open>Properties of the document tools\<close>

lemma concat_split_keepends: "concat (split_keepends cur s) = cur @ s"
  by (induction s arbitrary: cur) simp_all

lemma insert_loop_single:
  "1 \<le> k \<Longrightarrow> k \<le> int (length lines) + 1 \<Longrightarrow>
   insert_loop lines [(k, text)]
     = Inr (take (nat (k - 1)) lines @ (text @ [LF]) # drop (nat (k - 1)) lines)"
  by (simp add: list_insert_def)

lemma universal_newlines_no_CR: "CR \<notin> set s \<Longrightarrow> universal_newlines s = s"
  by (induction s rule: universal_newlines.induct) auto

lemma split_keepends_no_LF:
  "LF \<notin> set s \<Longrightarrow> split_keepends cur s = (if cur @ s = [] then [] else [cur @ s])"
  by (induction s arbitrary: cur) auto

lemma py_slice_all: "py_slice xs 0 None = xs"
  by (simp add: py_slice_def clip_index_def)

text \<open>A content of at most one line, without terminator, is read back as written.\<close>

lemma read_after_write_single_line:
  "LF \<notin> set c \<Longrightarrow> CR \<notin> set c \<Longrightarrow> write_then_read fs c file_name = Inr c"
  by (simp add: write_then_read_def write_document_def read_document_def readlines_def
      universal_newlines_no_CR split_keepends_no_LF py_slice_all)

text \<open>A single insert in range writes the lines before it, the new text with a line
  terminator, and the lines from it on.\<close>

lemma edit_document_single_in_range:
  assumes "fs file_name = Some data" and "1 \<le> k" and "k \<le> int (length (readlines data)) + 1"
  shows "edit_document fs file_name [(k, new_text)]
           = (Inr (''Document edited and saved to '' @ file_name),
              fs(file_name \<mapsto> concat (take (nat (k - 1)) (readlines data)) @ new_text @ [LF]
                                  @ concat (drop (nat (k - 1)) (readlines data))))"
  using assms by (simp add: edit_document_def sorted_inserts_def list_insert_def)

lemma out_of_range_message_not_success:
  "out_of_range_message k \<noteq> ''Document edited and saved to '' @ file_name"
  by (simp add: out_of_range_message_def)

text \<open>
  C4: writing a document and reading it back with the default start and end returns the
  content that was written. The code does not: \<open>readlines\<close> keeps the terminator of each
  line and \<open>"\n".join\<close> adds another one between them, so the two-line content
  \<open>a\nb\<close> is read back as \<open>a\n\nb\<close>.
\<close>

theorem read_after_write_doubles_newlines:
  "write_then_read Map.empty [CHR ''a'', LF, CHR ''b''] ''doc.txt''
     = Inr [CHR ''a'', LF, LF, CHR ''b'']
   \<and> [CHR ''a'', LF, LF, CHR ''b''] \<noteq> [CHR ''a'', LF, CHR ''b'']"
  by (simp add: write_then_read_def write_document_def read_document_def readlines_def
      py_slice_def clip_index_def LF_def CR_def)

text \<open>
  C5: a single insert at line \<open>k\<close> of a document of \<open>L\<close> lines, \<open>k\<close> from 1 to \<open>L + 1\<close>,
  puts the new text before the former line \<open>k\<close> and leaves the other lines as they were.
  The code does not when \<open>k = L + 1\<close> and the last line has no terminator: the document
  \<open>a\<close> with the insert \<open>{2: "b"}\<close> becomes \<open>ab\n\<close>, whose only line is \<open>ab\<close>.
\<close>

theorem append_merges_unterminated_line:
  "edit_document [''doc.txt'' \<mapsto> ''a''] ''doc.txt'' [(2, ''b'')]
     = (Inr ''Document edited and saved to doc.txt'',
        [''doc.txt'' \<mapsto> [CHR ''a'', CHR ''b'', LF]])
   \<and> readlines ''a'' = [''a'']
   \<and> readlines [CHR ''a'', CHR ''b'', LF] = [[CHR ''a'', CHR ''b'', LF]]"
  by (simp add: edit_document_def readlines_def sorted_inserts_def list_insert_def LF_def CR_def)

lemma insert_loop_append:
  "insert_loop lines (pre @ rest)
     = (case insert_loop lines pre of Inl k \<Rightarrow> Inl k | Inr lines' \<Rightarrow> insert_loop lines' rest)"
  by (induction pre arbitrary: lines) auto

lemma insert_loop_length:
  "insert_loop lines pre = Inr lines' \<Longrightarrow> length lines' = length lines + length pre"
proof (induction pre arbitrary: lines)
  case Nil
  then show ?case by simp
next
  case (Cons p pre)
  obtain k t where p: "p = (k, t)" by (cases p)
  from Cons.prems p have ok: "1 \<le> k" "k \<le> int (length lines) + 1"
    and rest: "insert_loop (list_insert lines (nat (k - 1)) (t @ [LF])) pre = Inr lines'"
    by (auto split: if_splits)
  have "length (list_insert lines (nat (k - 1)) (t @ [LF])) = length lines + 1"
    using ok by (simp add: list_insert_def)
  with Cons.IH [OF rest] show ?case by simp
qed

text \<open>
  C6, as stated: every insert whose line number is outside 1 to \<open>L + 1\<close>, \<open>L\<close> the number
  of lines of the document, is answered with the error string. It fails on the code, which
  checks each line number against the list as the earlier inserts have left it: in a
  document of one line, the inserts \<open>{1: "x", 3: "y"}\<close> are both accepted and the file is
  rewritten, although 3 is above 2.
\<close>

theorem edit_accepts_line_beyond_range_counterexample:
  "edit_document [''doc.txt'' \<mapsto> [CHR ''a'', LF]] ''doc.txt'' [(1, ''x''), (3, ''y'')]
     = (Inr ''Document edited and saved to doc.txt'',
        [''doc.txt'' \<mapsto> [CHR ''x'', LF, CHR ''a'', LF, CHR ''y'', LF]])
   \<and> readlines [CHR ''a'', LF] = [[CHR ''a'', LF]]
   \<and> int (length (readlines [CHR ''a'', LF])) + 1 < 3"
  by (simp add: edit_document_def readlines_def sorted_inserts_def list_insert_def LF_def CR_def)

text \<open>
  C6, amended: for every existing document of \<open>L\<close> lines and every inserts mapping, an
  insert that the loop reaches after \<open>p\<close> accepted inserts (those with smaller line
  numbers) and whose line number is below 1 or above \<open>L + p + 1\<close> makes \<open>edit_document\<close>
  return the error string that names the line number, without raising and without writing.
  For a single insert, and for the smallest line number of a mapping, \<open>p\<close> is 0 and the
  range is 1 to \<open>L + 1\<close>.
\<close>

theorem edit_rejects_out_of_range:
  assumes "fs file_name = Some data"
    and "sorted_inserts inserts = pre @ (line_number, new_text) # rest"
    and "insert_loop (readlines data) pre = Inr lines'"
    and "line_number < 1 \<or> int (length (readlines data)) + int (length pre) + 1 < line_number"
  shows "edit_document fs file_name inserts
           = (Inr (''Error: Line number '' @ str_int line_number @ '' is out of range.''), fs)"
proof -
  have len: "length lines' = length (readlines data) + length pre"
    using assms(3) by (rule insert_loop_length)
  have "insert_loop (readlines data) (sorted_inserts inserts) = Inl line_number"
    using assms(3,4) len by (auto simp: assms(2) insert_loop_append)
  then show ?thesis
    using assms(1) by (simp add: edit_document_def out_of_range_message_def)
qed

theorem edit_rejects_out_of_range_witness:
  "edit_document [''doc.txt'' \<mapsto> [CHR ''a'', LF]] ''doc.txt'' [(4, ''y''), (1, ''x'')]
     = (Inr ''Error: Line number 4 is out of range.'', [''doc.txt'' \<mapsto> [CHR ''a'', LF]])
   \<and> edit_document [''doc.txt'' \<mapsto> ''a''] ''doc.txt'' [(3, ''b'')]
     = (Inr ''Error: Line number 3 is out of range.'', [''doc.txt'' \<mapsto> ''a''])"
  using edit_rejects_out_of_range [where fs = "[''doc.txt'' \<mapsto> [CHR ''a'', LF]]"
      and file_name = "''doc.txt''" and data = "[CHR ''a'', LF]"
      and inserts = "[(4, ''y''), (1, ''x'')]" and pre = "[(1, ''x'')]" and line_number = 4
      and new_text = "''y''" and rest = "[]" and lines' = "[[CHR ''x'', LF], [CHR ''a'', LF]]"]
    edit_rejects_out_of_range [where fs = "[''doc.txt'' \<mapsto> ''a'']"
      and file_name = "''doc.txt''" and data = "''a''" and inserts = "[(3, ''b'')]"
      and pre = "[]" and line_number = 3 and new_text = "''b''" and rest = "[]"
      and lines' = "[''a'']"]
  by (simp add: readlines_def LF_def CR_def str_int_def digit_char_def sorted_inserts_def
      list_insert_def)

text \<open>
  C9: when the loop over the sorted inserts rejects a line number, \<open>edit_document\<close>
  returns the error string and the working directory is what it was before the call,
  also when earlier inserts of the sorted order were in range.
\<close>

theorem edit_atomic_on_error:
  assumes "fs file_name = Some data"
    and "insert_loop (readlines data) (sorted_inserts inserts) = Inl line_number"
  shows "edit_document fs file_name inserts = (Inr (out_of_range_message line_number), fs)"
  using assms by (simp add: edit_document_def)

theorem edit_atomic_on_error_witness:
  "edit_document [''doc.txt'' \<mapsto> [CHR ''a'', LF]] ''doc.txt'' [(5, ''y''), (1, ''x'')]
     = (Inr ''Error: Line number 5 is out of range.'', [''doc.txt'' \<mapsto> [CHR ''a'', LF]])"
  using edit_atomic_on_error [where fs = "[''doc.txt'' \<mapsto> [CHR ''a'', LF]]"
      and file_name = "''doc.txt''" and data = "[CHR ''a'', LF]"
      and inserts = "[(5, ''y''), (1, ''x'')]" and line_number = 5]
  by (simp add: readlines_def LF_def CR_def str_int_def digit_char_def sorted_inserts_def
      list_insert_def out_of_range_message_def)

end
